theory Spec2Isabelle
  imports Complex_Main "HOL-Library.Word"
begin

section \<open>JavaScript values used by the program\<close>

text \<open>
  A JavaScript string is a sequence of UTF-16 code units, and \<open>length\<close>, \<open>trim\<close> and
  \<open>startsWith\<close> work on code units. A string literal of the source is written
  \<open>str ''...''\<close>.
\<close>

type_synonym codeunit = "16 word"
type_synonym jsstring = "codeunit list"

definition str :: "string \<Rightarrow> jsstring" where
  "str s = map (\<lambda>c. of_nat (of_char c)) s"

text \<open>\<open>String.prototype.startsWith\<close> with one argument.\<close>

definition startsWith :: "jsstring \<Rightarrow> jsstring \<Rightarrow> bool" where
  "startsWith s p = (take (length p) s = p)"

text \<open>\<open>String.prototype.slice(from, to)\<close> for \<open>0 \<le> from \<le> to\<close>.\<close>

definition slice :: "nat \<Rightarrow> nat \<Rightarrow> jsstring \<Rightarrow> jsstring" where
  "slice from to s = take (to - from) (drop from s)"

text \<open>
  White space and line terminators of ECMAScript (\<open>StrWhiteSpaceChar\<close>): TAB, LF, VT, FF,
  CR, SPACE, NBSP, the other space separators of Unicode, LS, PS and the byte order mark.
  All of them are single code units.
\<close>

definition isWhiteSpace :: "codeunit \<Rightarrow> bool" where
  "isWhiteSpace c =
     (c = 0x9 \<or> c = 0xA \<or> c = 0xB \<or> c = 0xC \<or> c = 0xD \<or> c = 0x20 \<or> c = 0xA0
      \<or> c = 0x1680 \<or> (0x2000 \<le> c \<and> c \<le> 0x200A) \<or> c = 0x2028 \<or> c = 0x2029
      \<or> c = 0x202F \<or> c = 0x205F \<or> c = 0x3000 \<or> c = 0xFEFF)"

definition trimStart :: "jsstring \<Rightarrow> jsstring" where
  "trimStart s = dropWhile isWhiteSpace s"

definition trimEnd :: "jsstring \<Rightarrow> jsstring" where
  "trimEnd s = rev (dropWhile isWhiteSpace (rev s))"

definition trim :: "jsstring \<Rightarrow> jsstring" where
  "trim s = trimEnd (trimStart s)"

text \<open>
  A JavaScript number is NaN, an infinity or a finite value. Finite values are modelled by
  their exact real value: the rounding of IEEE doubles is not modelled. The comparison
  operators are those of the language: every comparison with NaN is false.
\<close>

datatype number = NaN | Finite real | PosInfinity | NegInfinity

fun isNaN :: "number \<Rightarrow> bool" where
  "isNaN NaN = True"
| "isNaN _ = False"

fun lt :: "number \<Rightarrow> number \<Rightarrow> bool" where
  "lt NaN _ = False"
| "lt _ NaN = False"
| "lt (Finite a) (Finite b) = (a < b)"
| "lt _ NegInfinity = False"
| "lt PosInfinity _ = False"
| "lt NegInfinity _ = True"
| "lt _ PosInfinity = True"

definition gt :: "number \<Rightarrow> number \<Rightarrow> bool" where
  "gt a b = lt b a"

definition le :: "number \<Rightarrow> number \<Rightarrow> bool" where
  "le a b = (lt a b \<or> (a = b \<and> \<not> isNaN a))"

fun negate :: "number \<Rightarrow> number" where
  "negate NaN = NaN"
| "negate (Finite r) = Finite (- r)"
| "negate PosInfinity = NegInfinity"
| "negate NegInfinity = PosInfinity"

text \<open>
  \<open>Number.prototype.toString()\<close> of an integer below \<open>10^21\<close> in magnitude, which is
  what a template literal does with \<open>Date.now()\<close>: the decimal digits, after a minus sign
  for a negative value.
\<close>

function digitsOf :: "nat \<Rightarrow> jsstring" where
  "digitsOf n =
     (if n < 10 then [of_nat (48 + n)]
      else digitsOf (n div 10) @ [of_nat (48 + n mod 10)])"
  by pat_completeness auto
termination
  by (relation "measure (\<lambda>n. n)") auto

declare digitsOf.simps [simp del]

definition numToString :: "int \<Rightarrow> jsstring" where
  "numToString n =
     (if n < 0 then str ''-'' @ digitsOf (nat (- n)) else digitsOf (nat n))"

subsection \<open>parseFloat\<close>

text \<open>
  \<open>parseFloat\<close> skips leading white space and reads the longest prefix that is a
  \<open>StrDecimalLiteral\<close>: an optional sign, then \<open>Infinity\<close> or decimal digits with an
  optional fraction and an optional exponent. Without such a prefix the result is NaN.
\<close>

definition isDigit :: "codeunit \<Rightarrow> bool" where
  "isDigit c = (0x30 \<le> c \<and> c \<le> 0x39)"

definition digitVal :: "codeunit \<Rightarrow> nat" where
  "digitVal c = unat c - 48"

definition decimalValue :: "jsstring \<Rightarrow> nat" where
  "decimalValue ds = foldl (\<lambda>a c. 10 * a + digitVal c) 0 ds"

definition pow10 :: "int \<Rightarrow> real" where
  "pow10 k = (if k < 0 then 1 / 10 ^ nat (- k) else 10 ^ nat k)"

text \<open>
  The value of an \<open>ExponentPart\<close> at the head of the string; 0 when there is none (an
  \<open>e\<close> that no digit follows is not part of the literal).
\<close>

definition exponentOf :: "jsstring \<Rightarrow> int" where
  "exponentOf s =
     (case s of
        [] \<Rightarrow> 0
      | c # t \<Rightarrow>
          if c \<noteq> 0x65 \<and> c \<noteq> 0x45 then 0
          else (case t of
                  [] \<Rightarrow> 0
                | d # u \<Rightarrow>
                    if d = 0x2B then int (decimalValue (takeWhile isDigit u))
                    else if d = 0x2D then - int (decimalValue (takeWhile isDigit u))
                    else int (decimalValue (takeWhile isDigit t))))"

definition unsignedDecimal :: "jsstring \<Rightarrow> number" where
  "unsignedDecimal s =
     (if startsWith s (str ''Infinity'') then PosInfinity
      else
        let intPart = takeWhile isDigit s;
            rest = dropWhile isDigit s
        in (case rest of
              [] \<Rightarrow> if intPart = [] then NaN else Finite (real (decimalValue intPart))
            | c # t \<Rightarrow>
                if c = 0x2E then
                  (let fracPart = takeWhile isDigit t;
                       rest' = dropWhile isDigit t
                   in if intPart = [] \<and> fracPart = [] then NaN
                      else Finite (real (decimalValue (intPart @ fracPart))
                                   * pow10 (exponentOf rest' - int (length fracPart))))
                else if intPart = [] then NaN
                else Finite (real (decimalValue intPart) * pow10 (exponentOf rest))))"

definition parseFloat :: "jsstring \<Rightarrow> number" where
  "parseFloat s =
     (case trimStart s of
        [] \<Rightarrow> NaN
      | c # t \<Rightarrow>
          if c = 0x2B then unsignedDecimal t
          else if c = 0x2D then negate (unsignedDecimal t)
          else unsignedDecimal (c # t))"

section \<open>types.ts\<close>

datatype Status = Pending | Completed | Failed

text \<open>
  The fields of \<open>Transaction\<close> carry the prefix \<open>tx_\<close>, since \<open>amount\<close> and
  \<open>recipient\<close> are also the fields of \<open>SendMoneyRequest\<close>. A timestamp is a value
  of \<open>Date.now()\<close>, a whole number of milliseconds.
\<close>

record Transaction =
  tx_id :: jsstring
  tx_amount :: number
  tx_recipient :: jsstring
  tx_timestamp :: int
  tx_status :: Status

record SendMoneyRequest =
  amount :: number
  recipient :: jsstring

section \<open>mocks/handlers.ts: the mock transport\<close>

datatype Body =
    ErrorBody jsstring
  | TransactionsBody "Transaction list"
  | TransactionBody Transaction

record HttpResponse =
  status :: nat
  body :: Body

text \<open>The module variable \<open>chaosModeEnabled\<close> and its setter and getter.\<close>

definition setChaosMode :: "bool \<Rightarrow> bool \<Rightarrow> bool" where
  "setChaosMode enabled chaosModeEnabled = enabled"

definition getChaosMode :: "bool \<Rightarrow> bool" where
  "getChaosMode chaosModeEnabled = chaosModeEnabled"

text \<open>
  \<open>applyChaos\<close>: \<open>random1\<close> and \<open>random2\<close> are the values of its two calls of
  \<open>Math.random()\<close>. The first component of the result is the argument of \<open>delay\<close>,
  \<open>None\<close> when \<open>delay\<close> is not called; the second is \<open>shouldError\<close>.
\<close>

definition applyChaos :: "bool \<Rightarrow> real \<Rightarrow> real \<Rightarrow> real option \<times> bool" where
  "applyChaos chaosModeEnabled random1 random2 =
     (if \<not> chaosModeEnabled then (None, False)
      else
        let latency = random1 * 5000;
            shouldError = (random2 < 0.1)
        in (Some latency, shouldError))"

definition internalServerError :: HttpResponse where
  "internalServerError = \<lparr>status = 500, body = ErrorBody (str ''Internal server error'')\<rparr>"

text \<open>The list of the GET handler; \<open>now1\<close>, \<open>now2\<close>, \<open>now3\<close> are its three readings of the clock.\<close>

definition transactions :: "int \<Rightarrow> int \<Rightarrow> int \<Rightarrow> Transaction list" where
  "transactions now1 now2 now3 =
     [\<lparr>tx_id = str ''1'', tx_amount = Finite 150, tx_recipient = str ''Alice Johnson'',
       tx_timestamp = now1 - 3600000, tx_status = Completed\<rparr>,
      \<lparr>tx_id = str ''2'', tx_amount = Finite 75.5, tx_recipient = str ''Bob Smith'',
       tx_timestamp = now2 - 7200000, tx_status = Completed\<rparr>,
      \<lparr>tx_id = str ''3'', tx_amount = Finite 200, tx_recipient = str ''Charlie Brown'',
       tx_timestamp = now3 - 10800000, tx_status = Completed\<rparr>]"

definition getTransactions ::
  "bool \<Rightarrow> real \<Rightarrow> real \<Rightarrow> int \<Rightarrow> int \<Rightarrow> int \<Rightarrow> real option \<times> HttpResponse" where
  "getTransactions chaosModeEnabled random1 random2 now1 now2 now3 =
     (let (delayed, shouldError) = applyChaos chaosModeEnabled random1 random2
      in if shouldError then (delayed, internalServerError)
         else (delayed, \<lparr>status = 200, body = TransactionsBody (transactions now1 now2 now3)\<rparr>))"

text \<open>
  The record of the POST handler: \<open>now1\<close> and \<open>now2\<close> are its two readings of the clock,
  \<open>random36\<close> is the string \<open>Math.random().toString(36)\<close>.
\<close>

definition newTransaction :: "int \<Rightarrow> jsstring \<Rightarrow> int \<Rightarrow> SendMoneyRequest \<Rightarrow> Transaction" where
  "newTransaction now1 random36 now2 reqBody =
     \<lparr>tx_id = str ''tx-'' @ numToString now1 @ str ''-'' @ slice 2 11 random36,
      tx_amount = amount reqBody,
      tx_recipient = recipient reqBody,
      tx_timestamp = now2,
      tx_status = Completed\<rparr>"

definition postTransactions ::
  "bool \<Rightarrow> real \<Rightarrow> real \<Rightarrow> int \<Rightarrow> jsstring \<Rightarrow> int \<Rightarrow> SendMoneyRequest
     \<Rightarrow> real option \<times> HttpResponse" where
  "postTransactions chaosModeEnabled random1 random2 now1 random36 now2 reqBody =
     (let (delayed, shouldError) = applyChaos chaosModeEnabled random1 random2
      in if shouldError then (delayed, internalServerError)
         else (delayed,
               \<lparr>status = 201, body = TransactionBody (newTransaction now1 random36 now2 reqBody)\<rparr>))"

section \<open>api/transactions.ts: the client of the transport\<close>

text \<open>
  \<open>response.ok\<close>, and the two fetch wrappers as functions of the response received:
  \<open>Inl\<close> carries the message of the \<open>Error\<close> thrown, \<open>Inr\<close> the parsed JSON body.
  Every \<open>Body\<close> is JSON, so the \<open>catch\<close> of \<open>sendMoney\<close> for a body that does not
  parse has no counterpart here.
\<close>

definition ok :: "HttpResponse \<Rightarrow> bool" where
  "ok response = (200 \<le> status response \<and> status response \<le> 299)"

definition fetchTransactions :: "HttpResponse \<Rightarrow> jsstring + Body" where
  "fetchTransactions response =
     (if \<not> ok response then Inl (str ''Failed to fetch transactions'')
      else Inr (body response))"

definition sendMoney :: "HttpResponse \<Rightarrow> jsstring + Body" where
  "sendMoney response =
     (if \<not> ok response then
        Inl (case body response of
               ErrorBody e \<Rightarrow> if e = [] then str ''Failed to send money'' else e
             | _ \<Rightarrow> str ''Failed to send money'')
      else Inr (body response))"

section \<open>hooks/useTransactions.ts: the mutation controller\<close>

text \<open>
  The query cache holds, under the key \<open>['transactions']\<close>, a list or \<open>undefined\<close>
  (\<open>None\<close>): it is \<open>undefined\<close> until a GET has succeeded. \<open>listOf\<close> is the default
  \<open>old = []\<close> of the updaters (and \<open>data: transactions = []\<close> of the view).
\<close>

type_synonym cache = "Transaction list option"

definition listOf :: "cache \<Rightarrow> Transaction list" where
  "listOf c = (case c of None \<Rightarrow> [] | Some old \<Rightarrow> old)"

text \<open>\<open>setQueryData\<close> with an updater function whose parameter has the default \<open>[]\<close>.\<close>

definition setQueryData :: "(Transaction list \<Rightarrow> Transaction list) \<Rightarrow> cache \<Rightarrow> cache" where
  "setQueryData updater c = Some (updater (listOf c))"

text \<open>
  The context that \<open>onMutate\<close> returns. Its field \<open>newTransaction\<close> is written with
  a prime: the plain name is the record that the POST handler builds.
\<close>

record Context =
  previousTransactions :: cache
  newTransaction' :: SendMoneyRequest

text \<open>
  \<open>onMutate\<close>: \<open>now1\<close> and \<open>now2\<close> are its two readings of \<open>Date.now()\<close>. The result is
  the cache after the optimistic update and the context returned. The \<open>cancelQueries\<close>
  it awaits first stops the fetches under way and leaves the cached data as it is; \<open>c\<close>
  is the cache when \<open>getQueryData\<close> reads it.
\<close>

definition optimisticTransaction :: "SendMoneyRequest \<Rightarrow> int \<Rightarrow> int \<Rightarrow> Transaction" where
  "optimisticTransaction newTx now1 now2 =
     \<lparr>tx_id = str ''temp-'' @ numToString now1,
      tx_amount = amount newTx,
      tx_recipient = recipient newTx,
      tx_timestamp = now2,
      tx_status = Pending\<rparr>"

definition onMutate :: "SendMoneyRequest \<Rightarrow> int \<Rightarrow> int \<Rightarrow> cache \<Rightarrow> cache \<times> Context" where
  "onMutate newTx now1 now2 c =
     (let previous = c
      in (setQueryData (\<lambda>old. optimisticTransaction newTx now1 now2 # old) c,
          \<lparr>previousTransactions = previous, newTransaction' = newTx\<rparr>))"

text \<open>
  The closure \<open>retry\<close> created by \<open>onError\<close> is represented by the context it captures.
  Invoked, it calls \<open>mutation.mutate\<close> with \<open>context.newTransaction\<close> when the context
  is defined (an object is always truthy); the result is the payload of the mutation issued.
\<close>

definition retry :: "Context option \<Rightarrow> SendMoneyRequest option" where
  "retry context =
     (case context of None \<Rightarrow> None | Some ctx \<Rightarrow> Some (newTransaction' ctx))"

record ErrorToast =
  title :: jsstring
  description :: jsstring
  actionLabel :: jsstring
  onClick :: "Context option"
  duration :: nat

text \<open>
  \<open>onError\<close>: the rollback is guarded by \<open>context?.previousTransactions\<close>, which is falsy
  when the context or the snapshot is \<open>undefined\<close> and truthy for every array, also the
  empty one. The handler issues no mutation itself; \<open>retryRef\<close>, which it also sets to the
  closure, is read nowhere.
\<close>

definition onError :: "jsstring \<Rightarrow> Context option \<Rightarrow> cache \<Rightarrow> cache \<times> ErrorToast" where
  "onError message context c =
     (let c' = (case context of
                  None \<Rightarrow> c
                | Some ctx \<Rightarrow>
                    (case previousTransactions ctx of
                       None \<Rightarrow> c
                     | Some previous \<Rightarrow> Some previous))
      in (c',
          \<lparr>title = str ''Transaction Failed'',
           description =
             (if message = [] then str ''Failed to send money. Please try again.'' else message),
           actionLabel = str ''Retry'',
           onClick = context,
           duration = 5000\<rparr>))"

text \<open>\<open>onSuccess\<close>: the cache after the update (the success toast does not touch it).\<close>

definition isTemp :: "Transaction \<Rightarrow> bool" where
  "isTemp t = startsWith (tx_id t) (str ''temp-'')"

definition onSuccess :: "Transaction \<Rightarrow> cache \<Rightarrow> cache" where
  "onSuccess data c =
     setQueryData (\<lambda>old. let filtered = filter (\<lambda>t. \<not> isTemp t) old in data # filtered) c"

subsection \<open>The mutation as the library runs it\<close>

text \<open>
  The \<open>retry\<close> option of the query client (a boolean or a number of retries) and the
  library's test after a failed call: \<open>retry === true\<close>, or \<open>failureCount < retry\<close> for
  a number. \<open>main.tsx\<close> sets \<open>retry: false\<close> for mutations.
\<close>

datatype RetryOption = RetryBool bool | RetryNumber nat

definition mutationsRetry :: RetryOption where
  "mutationsRetry = RetryBool False"

fun shouldRetry :: "RetryOption \<Rightarrow> nat \<Rightarrow> bool" where
  "shouldRetry (RetryBool b) failureCount = b"
| "shouldRetry (RetryNumber n) failureCount = (failureCount < n)"

text \<open>
  \<open>runMutationFn\<close> calls the mutation function until a call succeeds or the option allows
  no further retry; the list gives the outcome of each call the transport would answer, in
  order. The result is the number of calls made and the final outcome (\<open>None\<close>: still
  waiting, the outcomes known are used up).
\<close>

fun runMutationFn ::
  "RetryOption \<Rightarrow> nat \<Rightarrow> (jsstring + Transaction) list \<Rightarrow> nat \<times> (jsstring + Transaction) option" where
  "runMutationFn opt failureCount [] = (0, None)"
| "runMutationFn opt failureCount (Inr data # outcomes) = (1, Some (Inr data))"
| "runMutationFn opt failureCount (Inl err # outcomes) =
     (if shouldRetry opt failureCount then
        (let (n, r) = runMutationFn opt (Suc failureCount) outcomes in (Suc n, r))
      else (1, Some (Inl err)))"

record MutationResult =
  cached :: cache
  requests :: nat
  toast :: "ErrorToast option"
  invalidated :: bool

text \<open>
  One call of \<open>mutation.mutate\<close> when nothing else touches the cache meanwhile:
  \<open>onMutate\<close>, the calls of the mutation function, then \<open>onError\<close> or \<open>onSuccess\<close>,
  and \<open>onSettled\<close>, which invalidates the query. The success toast formats
  \<open>data.amount\<close> with \<open>toFixed\<close>, which throws when the amount came back as
  \<open>null\<close> (a NaN or infinite amount, which \<open>handleSubmit\<close> never sends); that path is
  not part of the model.
\<close>

definition mutate ::
  "RetryOption \<Rightarrow> SendMoneyRequest \<Rightarrow> int \<Rightarrow> int \<Rightarrow> (jsstring + Transaction) list \<Rightarrow> cache
     \<Rightarrow> MutationResult" where
  "mutate opt newTx now1 now2 outcomes c =
     (let (c1, context) = onMutate newTx now1 now2 c;
          (n, result) = runMutationFn opt 0 outcomes
      in (case result of
            None \<Rightarrow> \<lparr>cached = c1, requests = n, toast = None, invalidated = False\<rparr>
          | Some (Inl err) \<Rightarrow>
              (let (c2, t) = onError err (Some context) c1
               in \<lparr>cached = c2, requests = n, toast = Some t, invalidated = True\<rparr>)
          | Some (Inr data) \<Rightarrow>
              \<lparr>cached = onSuccess data c1, requests = n, toast = None, invalidated = True\<rparr>))"

subsection \<open>The lifecycle as a state machine\<close>

text \<open>
  The state is the cache and the contexts of the sends that have not settled. An event is a
  submission, the success or the failure of the send at an index of \<open>inFlight\<close>, or the
  arrival of a refetched list. \<open>Succeed\<close> carries what the POST handler reads: its two
  clock readings, its random string and the request body.
\<close>

record State =
  queryData :: cache
  inFlight :: "Context list"

datatype Event =
    Submit SendMoneyRequest int int
  | Succeed nat int jsstring int SendMoneyRequest
  | Fail nat jsstring
  | Refetch int int int

definition removeAt :: "nat \<Rightarrow> 'a list \<Rightarrow> 'a list" where
  "removeAt i xs = take i xs @ drop (Suc i) xs"

fun step :: "State \<Rightarrow> Event \<Rightarrow> State" where
  "step s (Submit newTx now1 now2) =
     (let (c, context) = onMutate newTx now1 now2 (queryData s)
      in \<lparr>queryData = c, inFlight = inFlight s @ [context]\<rparr>)"
| "step s (Succeed i now1 random36 now2 reqBody) =
     (if i < length (inFlight s) then
        \<lparr>queryData = onSuccess (newTransaction now1 random36 now2 reqBody) (queryData s),
         inFlight = removeAt i (inFlight s)\<rparr>
      else s)"
| "step s (Fail i message) =
     (if i < length (inFlight s) then
        \<lparr>queryData = fst (onError message (Some (inFlight s ! i)) (queryData s)),
         inFlight = removeAt i (inFlight s)\<rparr>
      else s)"
| "step s (Refetch now1 now2 now3) =
     \<lparr>queryData = Some (transactions now1 now2 now3), inFlight = inFlight s\<rparr>"

definition run :: "State \<Rightarrow> Event list \<Rightarrow> State" where
  "run s events = foldl step s events"

definition initialState :: State where
  "initialState = \<lparr>queryData = None, inFlight = []\<rparr>"

definition tempCount :: "Transaction list \<Rightarrow> nat" where
  "tempCount xs = length (filter isTemp xs)"

text \<open>A run is single-flight when every submission finds no send in flight.\<close>

fun singleFlight :: "State \<Rightarrow> Event list \<Rightarrow> bool" where
  "singleFlight s [] = True"
| "singleFlight s (Submit newTx now1 now2 # events) =
     (inFlight s = [] \<and> singleFlight (step s (Submit newTx now1 now2)) events)"
| "singleFlight s (e # events) = singleFlight (step s e) events"

text \<open>
  The invariant of single-flight runs: a list is cached, its temporary entries are at most
  as many as the sends in flight, at most one send is in flight, and the snapshot of a send
  in flight is a list without temporary entries.
\<close>

definition settledInv :: "State \<Rightarrow> bool" where
  "settledInv s =
     ((\<exists>xs. queryData s = Some xs \<and> tempCount xs \<le> length (inFlight s))
      \<and> length (inFlight s) \<le> 1
      \<and> (\<forall>ctx\<in>set (inFlight s).
            \<exists>ys. previousTransactions ctx = Some ys \<and> tempCount ys = 0))"

section \<open>components/SendMoneyForm.tsx: validation\<close>

record FormErrors =
  amountError :: "jsstring option"
  recipientError :: "jsstring option"

text \<open>
  \<open>validateForm\<close> on the two inputs of the form: the errors it sets and its result,
  \<open>Object.keys(newErrors).length === 0\<close>.
\<close>

definition validateRecipient :: "jsstring \<Rightarrow> jsstring option" where
  "validateRecipient recipientInput =
     (if trim recipientInput = [] then Some (str ''Recipient name is required'')
      else if length (trim recipientInput) < 2 then
        Some (str ''Recipient name must be at least 2 characters'')
      else None)"

definition validateAmount :: "jsstring \<Rightarrow> jsstring option" where
  "validateAmount amountInput =
     (let numAmount = parseFloat amountInput
      in if amountInput = [] then Some (str ''Amount is required'')
         else if isNaN numAmount \<or> le numAmount (Finite 0) then
           Some (str ''Amount must be greater than 0'')
         else if gt numAmount (Finite 10000) then Some (str ''Amount cannot exceed $10,000'')
         else if lt numAmount (Finite 0.01) then Some (str ''Amount must be at least $0.01'')
         else None)"

definition validateForm :: "jsstring \<Rightarrow> jsstring \<Rightarrow> FormErrors \<times> bool" where
  "validateForm amountInput recipientInput =
     (let newErrors = \<lparr>amountError = validateAmount amountInput,
                       recipientError = validateRecipient recipientInput\<rparr>
      in (newErrors, amountError newErrors = None \<and> recipientError newErrors = None))"

text \<open>\<open>handleSubmit\<close>: the payload passed to \<open>sendMoney.mutate\<close>, if any.\<close>

definition handleSubmit :: "jsstring \<Rightarrow> jsstring \<Rightarrow> SendMoneyRequest option" where
  "handleSubmit amountInput recipientInput =
     (if \<not> snd (validateForm amountInput recipientInput) then None
      else Some \<lparr>amount = parseFloat amountInput, recipient = trim recipientInput\<rparr>)"

section \<open>Properties of the mock transport\<close>

lemma startsWith_append: "startsWith (p @ s) p"
  by (simp add: startsWith_def)

lemma tx_not_temp: "\<not> startsWith (str ''tx-'' @ s) (str ''temp-'')"
  by (simp add: startsWith_def str_def)

lemma applyChaos_enabled: "applyChaos True r1 r2 = (Some (r1 * 5000), r2 < 0.1)"
  by (simp add: applyChaos_def)

lemma applyChaos_disabled: "applyChaos False r1 r2 = (None, False)"
  by (simp add: applyChaos_def)

lemma getTransactions_status:
  "status (snd (getTransactions chaos r1 r2 n1 n2 n3)) = (if chaos \<and> r2 < 0.1 then 500 else 200)"
  by (cases chaos) (simp_all add: getTransactions_def applyChaos_def internalServerError_def)

lemma postTransactions_status:
  "status (snd (postTransactions chaos r1 r2 n1 rs n2 b)) = (if chaos \<and> r2 < 0.1 then 500 else 201)"
  by (cases chaos) (simp_all add: postTransactions_def applyChaos_def internalServerError_def)

lemma getTransactions_delay:
  "fst (getTransactions chaos r1 r2 n1 n2 n3) = (if chaos then Some (r1 * 5000) else None)"
  by (cases chaos) (simp_all add: getTransactions_def applyChaos_def)

lemma postTransactions_delay:
  "fst (postTransactions chaos r1 r2 n1 rs n2 b) = (if chaos then Some (r1 * 5000) else None)"
  by (cases chaos) (simp_all add: postTransactions_def applyChaos_def)

text \<open>What the two fetch wrappers make of the answers of the handlers.\<close>

lemma sendMoney_postTransactions:
  "sendMoney (snd (postTransactions chaos r1 r2 n1 rs n2 b))
     = (if chaos \<and> r2 < 0.1 then Inl (str ''Internal server error'')
        else Inr (TransactionBody (newTransaction n1 rs n2 b)))"
  by (cases chaos)
    (simp_all add: sendMoney_def postTransactions_def applyChaos_def internalServerError_def
      ok_def str_def)

lemma fetchTransactions_getTransactions:
  "fetchTransactions (snd (getTransactions chaos r1 r2 n1 n2 n3))
     = (if chaos \<and> r2 < 0.1 then Inl (str ''Failed to fetch transactions'')
        else Inr (TransactionsBody (transactions n1 n2 n3)))"
  by (cases chaos)
    (simp_all add: fetchTransactions_def getTransactions_def applyChaos_def
      internalServerError_def ok_def)

text \<open>
  Claim C8. With chaos mode enabled, a GET and a POST are both delayed by \<open>random1 * 5000\<close>
  milliseconds, which lies in \<open>[0, 5000)\<close> for a draw in \<open>[0, 1)\<close>, and the response has
  status 500 exactly when the second draw is below 0.1. The draws of \<open>[0, 1)\<close> that make
  the call fail are the interval \<open>[0, 1/10)\<close>, a tenth of the unit interval: that is the
  probability 0.10 of a uniform draw.
\<close>

theorem chaos_enabled_delay_and_failure:
  assumes "0 \<le> random1" and "random1 < 1"
  shows "fst (getTransactions True random1 random2 n1 n2 n3) = Some (random1 * 5000)
    \<and> fst (postTransactions True random1 random2 n1 rs n2 b) = Some (random1 * 5000)
    \<and> 0 \<le> random1 * 5000 \<and> random1 * 5000 < 5000
    \<and> (status (snd (getTransactions True random1 random2 n1 n2 n3)) = 500 \<longleftrightarrow> random2 < 0.1)
    \<and> (status (snd (postTransactions True random1 random2 n1 rs n2 b)) = 500 \<longleftrightarrow> random2 < 0.1)
    \<and> {r. 0 \<le> r \<and> r < 1 \<and> snd (applyChaos True random1 r)} = {0 ..< 1 / 10}"
proof -
  have draws: "{r. 0 \<le> r \<and> r < 1 \<and> snd (applyChaos True random1 r)} = {0 ..< 1 / 10}"
    by (auto simp: applyChaos_enabled)
  from assms show ?thesis
    by (simp add: getTransactions_delay postTransactions_delay getTransactions_status
        postTransactions_status draws)
qed

theorem chaos_enabled_delay_and_failure_witness:
  "fst (getTransactions True (1/2) (1/20) 0 0 0) = Some 2500
   \<and> status (snd (postTransactions True (1/2) (1/20) 0 [] 0
                  \<lparr>amount = Finite 5, recipient = str ''Al''\<rparr>)) = 500
   \<and> status (snd (postTransactions True (1/2) (1/2) 0 [] 0
                  \<lparr>amount = Finite 5, recipient = str ''Al''\<rparr>)) \<noteq> 500"
  using chaos_enabled_delay_and_failure [where ?random1.0 = "1/2" and ?random2.0 = "1/20"
      and ?n1.0 = 0 and ?n2.0 = 0 and ?n3.0 = 0 and rs = "[]"
      and b = "\<lparr>amount = Finite 5, recipient = str ''Al''\<rparr>"]
    chaos_enabled_delay_and_failure [where ?random1.0 = "1/2" and ?random2.0 = "1/2"
      and ?n1.0 = 0 and ?n2.0 = 0 and ?n3.0 = 0 and rs = "[]"
      and b = "\<lparr>amount = Finite 5, recipient = str ''Al''\<rparr>"]
  by simp

text \<open>
  Claim C10. With chaos mode disabled, \<open>applyChaos\<close> calls no delay and returns
  \<open>shouldError = false\<close>; the GET answers 200 with the list and the POST answers 201 with
  the created record, whatever the draws. In either mode the status is 500 exactly when
  chaos mode is enabled and the error draw is below 0.1.
\<close>

theorem chaos_disabled_succeeds:
  "applyChaos False random1 random2 = (None, False)
   \<and> getTransactions False random1 random2 n1 n2 n3
       = (None, \<lparr>status = 200, body = TransactionsBody (transactions n1 n2 n3)\<rparr>)
   \<and> postTransactions False random1 random2 n1 rs n2 b
       = (None, \<lparr>status = 201, body = TransactionBody (newTransaction n1 rs n2 b)\<rparr>)
   \<and> ok (snd (getTransactions False random1 random2 n1 n2 n3))
   \<and> ok (snd (postTransactions False random1 random2 n1 rs n2 b))
   \<and> (status (snd (getTransactions chaos random1 random2 n1 n2 n3)) = 500
        \<longleftrightarrow> chaos \<and> random2 < 0.1)
   \<and> (status (snd (postTransactions chaos random1 random2 n1 rs n2 b)) = 500
        \<longleftrightarrow> chaos \<and> random2 < 0.1)"
proof -
  have g: "getTransactions False random1 random2 n1 n2 n3
       = (None, \<lparr>status = 200, body = TransactionsBody (transactions n1 n2 n3)\<rparr>)"
    by (simp add: getTransactions_def applyChaos_disabled)
  have p: "postTransactions False random1 random2 n1 rs n2 b
       = (None, \<lparr>status = 201, body = TransactionBody (newTransaction n1 rs n2 b)\<rparr>)"
    by (simp add: postTransactions_def applyChaos_disabled)
  have okg: "ok (snd (getTransactions False random1 random2 n1 n2 n3))"
    by (simp add: g ok_def)
  have okp: "ok (snd (postTransactions False random1 random2 n1 rs n2 b))"
    by (simp add: p ok_def)
  have sg: "status (snd (getTransactions chaos random1 random2 n1 n2 n3)) = 500
        \<longleftrightarrow> chaos \<and> random2 < 0.1"
    by (simp only: getTransactions_status) simp
  have sp: "status (snd (postTransactions chaos random1 random2 n1 rs n2 b)) = 500
        \<longleftrightarrow> chaos \<and> random2 < 0.1"
    by (simp only: postTransactions_status) simp
  show ?thesis
    using applyChaos_disabled g p okg okp sg sp by blast
qed

theorem chaos_disabled_succeeds_witness:
  "snd (postTransactions False 0 0 7 (str ''0.abc'') 7 \<lparr>amount = Finite 5, recipient = str ''Al''\<rparr>)
     = \<lparr>status = 201,
        body = TransactionBody
                 (newTransaction 7 (str ''0.abc'') 7 \<lparr>amount = Finite 5, recipient = str ''Al''\<rparr>)\<rparr>
   \<and> status (snd (getTransactions False 0 0 7 7 7)) \<noteq> 500"
  using chaos_disabled_succeeds [where ?random1.0 = 0 and ?random2.0 = 0 and chaos = False
      and ?n1.0 = 7 and ?n2.0 = 7 and ?n3.0 = 7 and rs = "str ''0.abc''"
      and b = "\<lparr>amount = Finite 5, recipient = str ''Al''\<rparr>"]
  by simp

section \<open>Properties of the mutation controller\<close>

lemma isTemp_optimistic: "isTemp (optimisticTransaction newTx now1 now2)"
  by (simp add: isTemp_def optimisticTransaction_def startsWith_append)

lemma not_isTemp_newTransaction: "\<not> isTemp (newTransaction now1 rs now2 b)"
  by (simp add: isTemp_def newTransaction_def tx_not_temp)

lemma onMutate_cache:
  "fst (onMutate newTx now1 now2 c) = Some (optimisticTransaction newTx now1 now2 # listOf c)"
  by (simp add: onMutate_def setQueryData_def)

lemma onMutate_context:
  "snd (onMutate newTx now1 now2 c) = \<lparr>previousTransactions = c, newTransaction' = newTx\<rparr>"
  by (simp add: onMutate_def)

lemma onSuccess_cache:
  "onSuccess data c = Some (data # filter (\<lambda>t. \<not> isTemp t) (listOf c))"
  by (simp add: onSuccess_def setQueryData_def)

lemma onError_restores_snapshot:
  "previousTransactions ctx = Some previous \<Longrightarrow> fst (onError message (Some ctx) c) = Some previous"
  by (simp add: onError_def)

lemma onError_without_snapshot:
  "previousTransactions ctx = None \<Longrightarrow> fst (onError message (Some ctx) c) = c"
  by (simp add: onError_def)

text \<open>
  Claim C3. After \<open>onMutate\<close>, and so before the request is sent, the cache is the
  previous list (empty when nothing was cached) with one entry prepended: its status is
  pending, its amount and recipient are those of the payload and its identifier starts
  with \<open>temp-\<close>. The entries that were there follow unchanged, in their order. This
  holds for every payload, valid or not.
\<close>

theorem onMutate_prepends_pending:
  "\<exists>opt. fst (onMutate newTx now1 now2 c) = Some (opt # listOf c)
     \<and> tx_status opt = Pending
     \<and> tx_amount opt = amount newTx
     \<and> tx_recipient opt = recipient newTx
     \<and> startsWith (tx_id opt) (str ''temp-'')"
proof -
  let ?opt = "optimisticTransaction newTx now1 now2"
  have "fst (onMutate newTx now1 now2 c) = Some (?opt # listOf c)"
    by (rule onMutate_cache)
  moreover have "tx_status ?opt = Pending" "tx_amount ?opt = amount newTx"
    "tx_recipient ?opt = recipient newTx"
    by (simp_all add: optimisticTransaction_def)
  moreover have "startsWith (tx_id ?opt) (str ''temp-'')"
    using isTemp_optimistic [of newTx now1 now2] by (simp add: isTemp_def)
  ultimately show ?thesis by blast
qed

text \<open>
  Claim C9. A record that the POST handler returns has an identifier that starts with
  \<open>tx-\<close> and not with \<open>temp-\<close>, so the filter of \<open>onSuccess\<close> keeps it wherever
  it stands in the list, at its place.
\<close>

theorem server_id_survives_filter:
  assumes "snd (postTransactions chaos random1 random2 now1 rs now2 b)
             = \<lparr>status = st, body = TransactionBody t\<rparr>"
  shows "startsWith (tx_id t) (str ''tx-'') \<and> \<not> startsWith (tx_id t) (str ''temp-'')
     \<and> (t \<in> set old \<longrightarrow> t \<in> set (listOf (onSuccess data (Some old))))
     \<and> filter (\<lambda>x. \<not> isTemp x) (xs @ t # ys)
         = filter (\<lambda>x. \<not> isTemp x) xs @ t # filter (\<lambda>x. \<not> isTemp x) ys"
proof -
  have t: "t = newTransaction now1 rs now2 b"
    using assms
    by (cases "chaos \<and> random2 < 0.1")
      (auto simp: postTransactions_def applyChaos_def internalServerError_def split: if_splits)
  have tx: "startsWith (tx_id t) (str ''tx-'')"
    by (simp add: t newTransaction_def startsWith_append)
  have nt: "\<not> isTemp t"
    by (simp add: t not_isTemp_newTransaction)
  then have "t \<in> set old \<longrightarrow> t \<in> set (listOf (onSuccess data (Some old)))"
    by (simp add: onSuccess_cache listOf_def)
  with tx nt show ?thesis by (simp add: isTemp_def)
qed

theorem server_id_survives_filter_witness:
  "tx_id (newTransaction 5 (str ''0.k3j'') 5 \<lparr>amount = Finite 20, recipient = str ''Bo''\<rparr>)
     = str ''tx-5-k3j''
   \<and> newTransaction 5 (str ''0.k3j'') 5 \<lparr>amount = Finite 20, recipient = str ''Bo''\<rparr>
       \<in> set (listOf (onSuccess (newTransaction 6 (str ''0.zz'') 6 \<lparr>amount = Finite 1, recipient = str ''Cy''\<rparr>)
           (Some [optimisticTransaction \<lparr>amount = Finite 1, recipient = str ''Cy''\<rparr> 6 6,
                  newTransaction 5 (str ''0.k3j'') 5 \<lparr>amount = Finite 20, recipient = str ''Bo''\<rparr>])))"
proof -
  let ?b = "\<lparr>amount = Finite 20, recipient = str ''Bo''\<rparr>"
  let ?t = "newTransaction 5 (str ''0.k3j'') 5 ?b"
  have p: "snd (postTransactions False 0 0 5 (str ''0.k3j'') 5 ?b)
             = \<lparr>status = 201, body = TransactionBody ?t\<rparr>"
    by (simp add: postTransactions_def applyChaos_def)
  have id: "tx_id ?t = str ''tx-5-k3j''"
    by (simp add: newTransaction_def numToString_def digitsOf.simps slice_def str_def)
  show ?thesis
    using server_id_survives_filter [OF p,
        where old = "[optimisticTransaction \<lparr>amount = Finite 1, recipient = str ''Cy''\<rparr> 6 6, ?t]"
          and data = "newTransaction 6 (str ''0.zz'') 6 \<lparr>amount = Finite 1, recipient = str ''Cy''\<rparr>"]
      id
    by simp
qed

lemma runMutationFn_no_retry:
  "runMutationFn mutationsRetry 0 (Inl err # outcomes) = (1, Some (Inl err))"
  by (simp add: mutationsRetry_def)

text \<open>
  Claim C4. With the \<open>retry: false\<close> of the query client, a send whose first call
  fails makes exactly one request, whatever later calls would have answered; the error
  toast carries the action \<open>Retry\<close>, and invoking it issues a mutation with the
  payload of the failed send.
\<close>

theorem failure_is_not_retried_and_retry_resubmits_payload:
  "requests (mutate mutationsRetry newTx now1 now2 (Inl err # outcomes) c) = 1
   \<and> (\<exists>t. toast (mutate mutationsRetry newTx now1 now2 (Inl err # outcomes) c) = Some t
          \<and> actionLabel t = str ''Retry''
          \<and> retry (onClick t) = Some newTx)"
  by (simp add: mutate_def runMutationFn_no_retry onMutate_def onError_def retry_def
      del: runMutationFn.simps)

text \<open>A failed send that started from a cached list leaves exactly that list.\<close>

lemma mutate_failure_restores_list:
  "cached (mutate mutationsRetry newTx now1 now2 (Inl err # outcomes) (Some xs)) = Some xs"
  by (simp add: mutate_def runMutationFn_no_retry onMutate_def onError_def
      del: runMutationFn.simps)

text \<open>
  Claim C1, at an input where it fails: nothing is cached yet (the first GET has not
  answered, or has failed), \<open>{amount: 25, recipient: 'Bob'}\<close> is submitted at time 1000
  and the request fails. The snapshot is \<open>undefined\<close>, the guard of \<open>onError\<close> skips
  the rollback, and the pending entry stays in the cache.
\<close>

theorem rollback_skipped_without_snapshot:
  "cached (mutate mutationsRetry \<lparr>amount = Finite 25, recipient = str ''Bob''\<rparr> 1000 1000
             [Inl (str ''Internal server error'')] None)
     = Some [\<lparr>tx_id = str ''temp-1000'', tx_amount = Finite 25, tx_recipient = str ''Bob'',
              tx_timestamp = 1000, tx_status = Pending\<rparr>]"
  by (simp add: mutate_def runMutationFn_no_retry onMutate_def onError_def setQueryData_def
      listOf_def optimisticTransaction_def numToString_def digitsOf.simps str_def
      del: runMutationFn.simps)

section \<open>Properties of the form validation\<close>

lemmas parse_defs = parseFloat_def trimStart_def isWhiteSpace_def unsignedDecimal_def
  startsWith_def str_def isDigit_def decimalValue_def digitVal_def pow10_def exponentOf_def

lemmas trim_defs = trim_def trimStart_def trimEnd_def isWhiteSpace_def str_def

lemma parseFloat_empty: "parseFloat [] = NaN"
  by (simp add: parseFloat_def trimStart_def)

lemma trimStart_all_white: "(\<forall>c\<in>set (trimStart s). isWhiteSpace c) \<longleftrightarrow> (\<forall>c\<in>set s. isWhiteSpace c)"
proof
  assume a: "\<forall>c\<in>set (trimStart s). isWhiteSpace c"
  have "trimStart s = []"
  proof (rule ccontr)
    assume n: "trimStart s \<noteq> []"
    then have "\<not> isWhiteSpace (hd (trimStart s))"
      unfolding trimStart_def by (rule hd_dropWhile)
    with a n show False by simp
  qed
  then show "\<forall>c\<in>set s. isWhiteSpace c"
    by (simp add: trimStart_def dropWhile_eq_Nil_conv)
next
  assume "\<forall>c\<in>set s. isWhiteSpace c"
  then show "\<forall>c\<in>set (trimStart s). isWhiteSpace c"
    unfolding trimStart_def by (meson set_dropWhileD)
qed

lemma trim_empty_iff: "trim s = [] \<longleftrightarrow> (\<forall>c\<in>set s. isWhiteSpace c)"
proof -
  have "trim s = [] \<longleftrightarrow> (\<forall>c\<in>set (trimStart s). isWhiteSpace c)"
    by (simp add: trim_def trimEnd_def dropWhile_eq_Nil_conv)
  then show ?thesis by (simp add: trimStart_all_white)
qed

lemma validateRecipient_None: "validateRecipient r = None \<longleftrightarrow> 2 \<le> length (trim r)"
  by (auto simp: validateRecipient_def)

lemma validateAmount_None:
  "validateAmount a = None \<longleftrightarrow> (\<exists>x. parseFloat a = Finite x \<and> 1 / 100 \<le> x \<and> x \<le> 10000)"
proof (cases "a = []")
  case True
  then show ?thesis by (simp add: validateAmount_def parseFloat_empty)
next
  case False
  then show ?thesis
    by (cases "parseFloat a") (auto simp: validateAmount_def le_def gt_def Let_def split: if_splits)
qed

lemma validateForm_result:
  "snd (validateForm a r) \<longleftrightarrow> validateAmount a = None \<and> validateRecipient r = None"
  by (simp add: validateForm_def)

text \<open>A payload that \<open>handleSubmit\<close> passes on is valid.\<close>

lemma handleSubmit_payload:
  assumes "handleSubmit amountInput recipientInput = Some newTx"
  shows "\<exists>x. amount newTx = Finite x \<and> 1 / 100 \<le> x \<and> x \<le> 10000"
    and "2 \<le> length (recipient newTx)"
proof -
  from assms have v: "snd (validateForm amountInput recipientInput)"
    and p: "newTx = \<lparr>amount = parseFloat amountInput, recipient = trim recipientInput\<rparr>"
    by (auto simp: handleSubmit_def split: if_splits)
  from v have "validateAmount amountInput = None" "validateRecipient recipientInput = None"
    by (simp_all add: validateForm_result)
  then show "\<exists>x. amount newTx = Finite x \<and> 1 / 100 \<le> x \<and> x \<le> 10000"
    and "2 \<le> length (recipient newTx)"
    by (simp_all add: p validateAmount_None validateRecipient_None)
qed

text \<open>
  Claim C6. The amount is rejected when it does not parse to a number, when it parses to 0
  or to a negative number, and when it parses to more than 10000 (or to an infinity); it is
  accepted when it parses to a number in \<open>[0.01, 10000]\<close>. A rejected amount makes
  \<open>validateForm\<close> return false.
\<close>

theorem amount_validation:
  "(parseFloat a = NaN \<longrightarrow> validateAmount a \<noteq> None)
   \<and> (parseFloat a = Finite x \<and> x \<le> 0 \<longrightarrow> validateAmount a \<noteq> None)
   \<and> (parseFloat a = Finite x \<and> 10000 < x \<longrightarrow> validateAmount a \<noteq> None)
   \<and> (parseFloat a = PosInfinity \<or> parseFloat a = NegInfinity \<longrightarrow> validateAmount a \<noteq> None)
   \<and> (parseFloat a = Finite x \<and> 1 / 100 \<le> x \<and> x \<le> 10000 \<longrightarrow> validateAmount a = None)
   \<and> (validateAmount a \<noteq> None \<longrightarrow> \<not> snd (validateForm a r))
   \<and> (validateAmount a = None \<longrightarrow> amountError (fst (validateForm a r)) = None)"
proof -
  have "validateAmount a = None \<longrightarrow> amountError (fst (validateForm a r)) = None"
    by (simp add: validateForm_def)
  then show ?thesis
    by (auto simp: validateAmount_None validateForm_result)
qed

theorem amount_validation_witness:
  "validateAmount (str ''0'') \<noteq> None
   \<and> validateAmount (str ''-5'') \<noteq> None
   \<and> validateAmount (str ''10000.01'') \<noteq> None
   \<and> validateAmount (str ''abc'') \<noteq> None
   \<and> validateAmount (str ''0.01'') = None
   \<and> validateAmount (str ''10000'') = None"
proof -
  have p: "parseFloat (str ''0'') = Finite 0" "parseFloat (str ''-5'') = Finite (- 5)"
    "parseFloat (str ''10000.01'') = Finite (1000001 / 100)" "parseFloat (str ''abc'') = NaN"
    "parseFloat (str ''0.01'') = Finite (1 / 100)" "parseFloat (str ''10000'') = Finite 10000"
    by (simp_all add: parse_defs)
  have "validateAmount (str ''0'') \<noteq> None"
    using amount_validation [where a = "str ''0''" and x = 0 and r = "[]"] p by simp
  moreover have "validateAmount (str ''-5'') \<noteq> None"
    using amount_validation [where a = "str ''-5''" and x = "- 5" and r = "[]"] p by simp
  moreover have "validateAmount (str ''10000.01'') \<noteq> None"
    using amount_validation [where a = "str ''10000.01''" and x = "1000001 / 100" and r = "[]"] p
    by simp
  moreover have "validateAmount (str ''abc'') \<noteq> None"
    using amount_validation [where a = "str ''abc''" and x = 0 and r = "[]"] p by simp
  moreover have "validateAmount (str ''0.01'') = None"
    using amount_validation [where a = "str ''0.01''" and x = "1 / 100" and r = "[]"] p by simp
  moreover have "validateAmount (str ''10000'') = None"
    using amount_validation [where a = "str ''10000''" and x = 10000 and r = "[]"] p by simp
  ultimately show ?thesis by blast
qed

text \<open>
  Claim C7. The recipient is rejected when it is empty or consists of white space only and
  when its trimmed length is 1; it is accepted when its trimmed length is at least 2. A
  rejected recipient makes \<open>validateForm\<close> return false.
\<close>

theorem recipient_validation:
  "(r = [] \<longrightarrow> validateRecipient r \<noteq> None)
   \<and> ((\<forall>c\<in>set r. isWhiteSpace c) \<longrightarrow> validateRecipient r \<noteq> None)
   \<and> (length (trim r) = 1 \<longrightarrow> validateRecipient r \<noteq> None)
   \<and> (2 \<le> length (trim r) \<longrightarrow> validateRecipient r = None)
   \<and> (validateRecipient r \<noteq> None \<longrightarrow> \<not> snd (validateForm a r))
   \<and> (validateRecipient r = None \<longrightarrow> recipientError (fst (validateForm a r)) = None)"
proof -
  have e: "(\<forall>c\<in>set r. isWhiteSpace c) \<longrightarrow> validateRecipient r \<noteq> None"
    by (simp add: validateRecipient_def trim_empty_iff)
  have f: "validateRecipient r = None \<longrightarrow> recipientError (fst (validateForm a r)) = None"
    by (simp add: validateForm_def)
  from e have "r = [] \<longrightarrow> validateRecipient r \<noteq> None" by auto
  with e f show ?thesis
    by (simp add: validateRecipient_None validateForm_result)
qed

theorem recipient_validation_witness:
  "validateRecipient [] \<noteq> None
   \<and> validateRecipient (str ''   '') \<noteq> None
   \<and> validateRecipient (str '' A '') \<noteq> None
   \<and> validateRecipient (str '' Al '') = None"
proof -
  have t: "trim (str '' A '') = str ''A''" "trim (str '' Al '') = str ''Al''"
    by (simp_all add: trim_defs)
  have w: "\<forall>c\<in>set (str ''   ''). isWhiteSpace c"
    by (simp add: str_def isWhiteSpace_def)
  have l: "length (str ''A'') = 1" "2 \<le> length (str ''Al'')"
    by (simp_all add: str_def)
  have "validateRecipient [] \<noteq> None"
    using recipient_validation [where r = "[]" and a = "[]"] by blast
  moreover have "validateRecipient (str ''   '') \<noteq> None"
    using recipient_validation [where r = "str ''   ''" and a = "[]"] w by blast
  moreover have "validateRecipient (str '' A '') \<noteq> None"
    using recipient_validation [where r = "str '' A ''" and a = "[]"] t l by simp
  moreover have "validateRecipient (str '' Al '') = None"
    using recipient_validation [where r = "str '' Al ''" and a = "[]"] t l by simp
  ultimately show ?thesis by blast
qed

section \<open>Success, and the temporary entries of the lifecycle\<close>

lemma tempCount_Cons: "tempCount (t # xs) = (if isTemp t then Suc (tempCount xs) else tempCount xs)"
  by (simp add: tempCount_def)

lemma tempCount_filter: "tempCount (filter (\<lambda>t. \<not> isTemp t) xs) = 0"
  by (induction xs) (simp_all add: tempCount_def)

lemma filter_no_temp: "tempCount xs = 0 \<Longrightarrow> filter (\<lambda>t. \<not> isTemp t) xs = xs"
  by (induction xs) (simp_all add: tempCount_def split: if_splits)

lemma tempCount_transactions: "tempCount (transactions now1 now2 now3) = 0"
  by (simp add: tempCount_def transactions_def isTemp_def startsWith_def str_def)

lemmas eval_defs = run_def initialState_def onMutate_def onError_def onSuccess_def
  setQueryData_def listOf_def removeAt_def tempCount_def isTemp_def startsWith_def
  optimisticTransaction_def newTransaction_def transactions_def numToString_def digitsOf.simps
  slice_def str_def

text \<open>
  Claim C2, amended. When a send succeeds with the record of the POST handler, the cache
  becomes that record followed by the entries that were cached and are not temporary, in
  their order. The record is at the head, its status is completed and its identifier starts
  with \<open>tx-\<close>; no temporary entry remains. After a submission onto a list without
  temporary entries, the record stands exactly where the pending entry stood. Nothing is
  removed but temporary entries: the record occurs once exactly when it was not cached
  before, and the identifiers are distinct exactly when the identifier of the record is
  not among those of the entries kept and those were distinct.
\<close>

theorem onSuccess_puts_server_record_first:
  assumes data: "data = newTransaction now1 random36 now2 reqBody"
  shows "\<exists>rest. onSuccess data c = Some (data # rest)
      \<and> rest = filter (\<lambda>t. \<not> isTemp t) (listOf c)
      \<and> tx_status data = Completed
      \<and> startsWith (tx_id data) (str ''tx-'')
      \<and> (\<forall>t\<in>set (data # rest). \<not> isTemp t)
      \<and> (count_list (data # rest) data = 1 \<longleftrightarrow> data \<notin> set (listOf c))
      \<and> (distinct (map tx_id (data # rest))
           \<longleftrightarrow> tx_id data \<notin> tx_id ` set rest \<and> distinct (map tx_id rest))
      \<and> (\<forall>newTx m1 m2 previous.
            c = fst (onMutate newTx m1 m2 (Some previous)) \<and> tempCount previous = 0
            \<longrightarrow> onSuccess data c = Some (data # previous))"
proof -
  let ?rest = "filter (\<lambda>t. \<not> isTemp t) (listOf c)"
  have c: "onSuccess data c = Some (data # ?rest)"
    by (rule onSuccess_cache)
  have st: "tx_status data = Completed"
    by (simp add: data newTransaction_def)
  have tx: "startsWith (tx_id data) (str ''tx-'')"
    by (simp add: data newTransaction_def startsWith_append)
  have nt: "\<not> isTemp data"
    by (simp add: data not_isTemp_newTransaction)
  then have all: "\<forall>t\<in>set (data # ?rest). \<not> isTemp t"
    by simp
  have "count_list (data # ?rest) data = 1 \<longleftrightarrow> data \<notin> set ?rest"
    by (simp add: count_list_0_iff)
  with nt have once: "count_list (data # ?rest) data = 1 \<longleftrightarrow> data \<notin> set (listOf c)"
    by simp
  have dist: "distinct (map tx_id (data # ?rest))
      \<longleftrightarrow> tx_id data \<notin> tx_id ` set ?rest \<and> distinct (map tx_id ?rest)"
    by simp
  have place: "\<forall>newTx m1 m2 previous.
      c = fst (onMutate newTx m1 m2 (Some previous)) \<and> tempCount previous = 0
      \<longrightarrow> onSuccess data c = Some (data # previous)"
    by (simp add: onMutate_cache onSuccess_cache listOf_def isTemp_optimistic filter_no_temp)
  from c st tx all once dist place show ?thesis
    by blast
qed

theorem onSuccess_puts_server_record_first_witness:
  "onSuccess (newTransaction 10 (str ''0.abc'') 11 \<lparr>amount = Finite 25, recipient = str ''Bob''\<rparr>)
     (fst (onMutate \<lparr>amount = Finite 25, recipient = str ''Bob''\<rparr> 9 9 (Some (transactions 0 0 0))))
   = Some (newTransaction 10 (str ''0.abc'') 11 \<lparr>amount = Finite 25, recipient = str ''Bob''\<rparr>
           # transactions 0 0 0)
   \<and> count_list
        (newTransaction 10 (str ''0.abc'') 11 \<lparr>amount = Finite 25, recipient = str ''Bob''\<rparr>
           # transactions 0 0 0)
        (newTransaction 10 (str ''0.abc'') 11 \<lparr>amount = Finite 25, recipient = str ''Bob''\<rparr>) = 1"
proof -
  let ?p = "\<lparr>amount = Finite 25, recipient = str ''Bob''\<rparr>"
  let ?data = "newTransaction 10 (str ''0.abc'') 11 ?p"
  let ?c = "fst (onMutate ?p 9 9 (Some (transactions 0 0 0)))"
  have absent: "?data \<notin> set (listOf ?c)"
    by (simp add: eval_defs)
  from onSuccess_puts_server_record_first [OF refl, of 10 "str ''0.abc''" 11 ?p ?c]
  obtain rest where r: "onSuccess ?data ?c = Some (?data # rest)"
    "count_list (?data # rest) ?data = 1 \<longleftrightarrow> ?data \<notin> set (listOf ?c)"
    "\<forall>newTx m1 m2 previous.
       ?c = fst (onMutate newTx m1 m2 (Some previous)) \<and> tempCount previous = 0
       \<longrightarrow> onSuccess ?data ?c = Some (?data # previous)"
    by blast
  from r(3) tempCount_transactions [of 0 0 0]
  have e: "onSuccess ?data ?c = Some (?data # transactions 0 0 0)"
    by blast
  with r(1) have "rest = transactions 0 0 0" by simp
  with r(2) absent e show ?thesis by simp
qed

text \<open>
  Claim C2 as stated fails when the handler returns the same record twice: a second send of
  the same payload is answered at the same reading of the clock with the same random
  string. \<open>onSuccess\<close> does not look for the record in the list, and the record is
  cached twice.
\<close>

theorem repeated_server_record_is_duplicated:
  "queryData (run \<lparr>queryData = Some (transactions 0 0 0), inFlight = []\<rparr>
      [Submit \<lparr>amount = Finite 25, recipient = str ''Bob''\<rparr> 1 1,
       Succeed 0 5 (str ''0.abc'') 5 \<lparr>amount = Finite 25, recipient = str ''Bob''\<rparr>,
       Submit \<lparr>amount = Finite 25, recipient = str ''Bob''\<rparr> 5 5,
       Succeed 0 5 (str ''0.abc'') 5 \<lparr>amount = Finite 25, recipient = str ''Bob''\<rparr>])
   = Some (newTransaction 5 (str ''0.abc'') 5 \<lparr>amount = Finite 25, recipient = str ''Bob''\<rparr>
           # newTransaction 5 (str ''0.abc'') 5 \<lparr>amount = Finite 25, recipient = str ''Bob''\<rparr>
           # transactions 0 0 0)
   \<and> count_list
        (listOf (queryData (run \<lparr>queryData = Some (transactions 0 0 0), inFlight = []\<rparr>
           [Submit \<lparr>amount = Finite 25, recipient = str ''Bob''\<rparr> 1 1,
            Succeed 0 5 (str ''0.abc'') 5 \<lparr>amount = Finite 25, recipient = str ''Bob''\<rparr>,
            Submit \<lparr>amount = Finite 25, recipient = str ''Bob''\<rparr> 5 5,
            Succeed 0 5 (str ''0.abc'') 5 \<lparr>amount = Finite 25, recipient = str ''Bob''\<rparr>])))
        (newTransaction 5 (str ''0.abc'') 5 \<lparr>amount = Finite 25, recipient = str ''Bob''\<rparr>) = 2"
  by (simp add: eval_defs)

theorem onMutate_prepends_pending_witness:
  "\<exists>opt. fst (onMutate \<lparr>amount = Finite 25, recipient = str ''Bob''\<rparr> 9 9
                (Some (transactions 0 0 0))) = Some (opt # transactions 0 0 0)
         \<and> tx_status opt = Pending \<and> tx_amount opt = Finite 25 \<and> tx_recipient opt = str ''Bob''
         \<and> startsWith (tx_id opt) (str ''temp-'')"
  using onMutate_prepends_pending [of "\<lparr>amount = Finite 25, recipient = str ''Bob''\<rparr>" 9 9
      "Some (transactions 0 0 0)"]
  by (simp add: listOf_def)

theorem failure_is_not_retried_and_retry_resubmits_payload_witness:
  "requests (mutate mutationsRetry \<lparr>amount = Finite 25, recipient = str ''Bob''\<rparr> 9 9
      [Inl (str ''Internal server error''),
       Inr (newTransaction 10 (str ''0.abc'') 11 \<lparr>amount = Finite 25, recipient = str ''Bob''\<rparr>)]
      (Some (transactions 0 0 0))) = 1"
  using failure_is_not_retried_and_retry_resubmits_payload
    [of "\<lparr>amount = Finite 25, recipient = str ''Bob''\<rparr>" 9 9 "str ''Internal server error''"
      "[Inr (newTransaction 10 (str ''0.abc'') 11 \<lparr>amount = Finite 25, recipient = str ''Bob''\<rparr>)]"
      "Some (transactions 0 0 0)"]
  by blast

lemma settledInv_step:
  assumes inv: "settledInv s"
    and guard: "\<And>newTx now1 now2. e = Submit newTx now1 now2 \<Longrightarrow> inFlight s = []"
  shows "settledInv (step s e)"
proof -
  from inv obtain xs where xs: "queryData s = Some xs" "tempCount xs \<le> length (inFlight s)"
    by (auto simp: settledInv_def)
  from inv have len: "length (inFlight s) \<le> 1"
    and ctxs: "\<forall>ctx\<in>set (inFlight s). \<exists>ys. previousTransactions ctx = Some ys \<and> tempCount ys = 0"
    by (auto simp: settledInv_def)
  show ?thesis
  proof (cases e)
    case (Submit newTx now1 now2)
    with guard have empty: "inFlight s = []" by simp
    with xs have "tempCount xs = 0" by simp
    then show ?thesis
      using Submit empty xs
      by (simp add: settledInv_def onMutate_def setQueryData_def listOf_def tempCount_Cons
          isTemp_optimistic)
  next
    case (Succeed i now1 rs now2 b)
    show ?thesis
    proof (cases "i < length (inFlight s)")
      case True
      with len have "removeAt i (inFlight s) = []"
        by (cases "inFlight s") (simp_all add: removeAt_def)
      then show ?thesis
        using Succeed True xs
        by (simp add: settledInv_def onSuccess_cache listOf_def tempCount_Cons
            not_isTemp_newTransaction tempCount_filter)
    next
      case False
      with Succeed inv show ?thesis by simp
    qed
  next
    case (Fail i message)
    show ?thesis
    proof (cases "i < length (inFlight s)")
      case True
      with len have r: "removeAt i (inFlight s) = []"
        by (cases "inFlight s") (simp_all add: removeAt_def)
      from True ctxs obtain ys where
        ys: "previousTransactions (inFlight s ! i) = Some ys" "tempCount ys = 0"
        by (meson nth_mem)
      show ?thesis
        using Fail True r ys
        by (simp add: settledInv_def onError_restores_snapshot)
    next
      case False
      with Fail inv show ?thesis by simp
    qed
  next
    case (Refetch now1 now2 now3)
    with len ctxs show ?thesis
      by (simp add: settledInv_def tempCount_transactions)
  qed
qed

lemma settledInv_run:
  "settledInv s \<Longrightarrow> singleFlight s events \<Longrightarrow> settledInv (run s events)"
proof (induction events arbitrary: s)
  case Nil
  then show ?case by (simp add: run_def)
next
  case (Cons e events)
  have guard: "\<And>newTx now1 now2. e = Submit newTx now1 now2 \<Longrightarrow> inFlight s = []"
    using Cons.prems(2) by auto
  have sf: "singleFlight (step s e) events"
    using Cons.prems(2) by (cases e) (simp_all del: step.simps)
  have "settledInv (step s e)"
    using Cons.prems(1) guard by (rule settledInv_step)
  then have "settledInv (run (step s e) events)"
    using sf by (rule Cons.IH)
  then show ?case by (simp add: run_def)
qed

text \<open>
  Claim C5, amended. In every state reached from a cached list without temporary entries
  by a single-flight run (no send is submitted while another is in flight), the cached list
  has at most as many temporary entries as there are sends in flight, which is at most
  one; once the send has settled there is none.
\<close>

theorem single_flight_temp_entries:
  assumes "queryData s0 = Some xs" and "tempCount xs = 0" and "inFlight s0 = []"
    and "singleFlight s0 events"
  shows "tempCount (listOf (queryData (run s0 events))) \<le> length (inFlight (run s0 events))
    \<and> length (inFlight (run s0 events)) \<le> 1
    \<and> (inFlight (run s0 events) = [] \<longrightarrow> tempCount (listOf (queryData (run s0 events))) = 0)"
proof -
  have "settledInv s0"
    using assms(1-3) by (simp add: settledInv_def)
  then have "settledInv (run s0 events)"
    using assms(4) by (rule settledInv_run)
  then show ?thesis
    by (auto simp: settledInv_def listOf_def)
qed

text \<open>
  Claim C5 as stated fails when two sends are in flight together: the list is loaded, two
  sends are submitted, and they fail in the order of their submission. The second rollback
  restores a snapshot that holds the temporary entry of the first send: one temporary
  entry is cached and no send is in flight.
\<close>

theorem concurrent_failures_resurrect_temp_entry:
  "inFlight (run initialState
      [Refetch 0 0 0,
       Submit \<lparr>amount = Finite 10, recipient = str ''Al''\<rparr> 1 1,
       Submit \<lparr>amount = Finite 20, recipient = str ''Bo''\<rparr> 2 2,
       Fail 0 (str ''Internal server error''),
       Fail 0 (str ''Internal server error'')]) = []
   \<and> tempCount (listOf (queryData (run initialState
      [Refetch 0 0 0,
       Submit \<lparr>amount = Finite 10, recipient = str ''Al''\<rparr> 1 1,
       Submit \<lparr>amount = Finite 20, recipient = str ''Bo''\<rparr> 2 2,
       Fail 0 (str ''Internal server error''),
       Fail 0 (str ''Internal server error'')]))) = 1"
  by (simp add: eval_defs)

theorem single_flight_temp_entries_witness:
  "tempCount (listOf (queryData (run \<lparr>queryData = Some (transactions 0 0 0), inFlight = []\<rparr>
      [Submit \<lparr>amount = Finite 10, recipient = str ''Al''\<rparr> 1 1]))) \<le> 1
   \<and> tempCount (listOf (queryData (run \<lparr>queryData = Some (transactions 0 0 0), inFlight = []\<rparr>
      [Submit \<lparr>amount = Finite 10, recipient = str ''Al''\<rparr> 1 1,
       Fail 0 (str ''Internal server error''),
       Submit \<lparr>amount = Finite 10, recipient = str ''Al''\<rparr> 2 2,
       Succeed 0 3 (str ''0.q7'') 3 \<lparr>amount = Finite 10, recipient = str ''Al''\<rparr>]))) = 0"
proof -
  let ?s0 = "\<lparr>queryData = Some (transactions 0 0 0), inFlight = []\<rparr>"
  let ?p = "\<lparr>amount = Finite 10, recipient = str ''Al''\<rparr>"
  let ?e1 = "[Submit ?p 1 1]"
  let ?e2 = "[Submit ?p 1 1, Fail 0 (str ''Internal server error''), Submit ?p 2 2,
              Succeed 0 3 (str ''0.q7'') 3 ?p]"
  have q: "queryData ?s0 = Some (transactions 0 0 0)" and i: "inFlight ?s0 = []"
    by simp_all
  have s1: "singleFlight ?s0 ?e1"
    by simp
  have s2: "singleFlight ?s0 ?e2"
    by (simp add: onMutate_def onError_def removeAt_def)
  have l1: "length (inFlight (run ?s0 ?e1)) = 1"
    by (simp add: run_def onMutate_def)
  have l2: "inFlight (run ?s0 ?e2) = []"
    by (simp add: run_def onMutate_def onError_def removeAt_def)
  show ?thesis
    using single_flight_temp_entries [OF q tempCount_transactions i s1]
      single_flight_temp_entries [OF q tempCount_transactions i s2] l1 l2
    by simp
qed

end
